theory Spec2Isabelle
  imports Main "HOL-Library.Sublist"
begin

section \<open>Python values and the primitives app.py uses on them\<close>

text \<open>
  A decoded JSON document, as Python's \<^verbatim>\<open>json\<close> module (and so \<^verbatim>\<open>resp.json()\<close> and
  \<^verbatim>\<open>request.get_json()\<close>) hands it to the program: \<^verbatim>\<open>None\<close>, a bool, a number, a
  \<^verbatim>\<open>str\<close>, a list or a dict with string keys. A dict is the list of its entries and is
  read with \<open>map_of\<close>. Numbers are integers here: the program only ever asks a number
  whether it is zero, and never whether it has a fraction.
  A \<^verbatim>\<open>str\<close> is a \<open>string\<close>, one \<open>char\<close> for each code point below 256.
\<close>

datatype json =
    JNull
  | JBool bool
  | JNum int
  | JStr string
  | JArr "json list"
  | JObj "(string \<times> json) list"

text \<open>
  The exceptions that can occur. Every subclass of
  \<^verbatim>\<open>requests.exceptions.RequestException\<close> (ConnectionError, Timeout, HTTPError, ...)
  is \<open>RequestException\<close>, carrying \<^verbatim>\<open>str(e)\<close>; the \<^verbatim>\<open>except\<close> clause of
  \<^verbatim>\<open>call_gemini\<close> tells no more apart.
\<close>

datatype py_exn =
    RequestException string
  | AttributeError
  | TypeError
  | KeyError
  | IndexError
  | ValueError

text \<open>Truth value testing: \<^verbatim>\<open>None\<close>, \<^verbatim>\<open>False\<close>, zero and empty containers are false.\<close>

fun truthy :: "json \<Rightarrow> bool" where
  "truthy JNull = False"
| "truthy (JBool b) = b"
| "truthy (JNum n) = (n \<noteq> 0)"
| "truthy (JStr s) = (s \<noteq> [])"
| "truthy (JArr xs) = (xs \<noteq> [])"
| "truthy (JObj kvs) = (kvs \<noteq> [])"

text \<open>\<^verbatim>\<open>a or b\<close>\<close>

definition py_or :: "json \<Rightarrow> json \<Rightarrow> json" where
  "py_or a b = (if truthy a then a else b)"

text \<open>
  \<^verbatim>\<open>d.get(k, default)\<close>: only a dict has the method; on any other value the attribute
  lookup raises AttributeError. A key that is present with the value \<^verbatim>\<open>None\<close> yields
  \<^verbatim>\<open>None\<close>, not the default.
\<close>

fun py_get :: "json \<Rightarrow> string \<Rightarrow> json \<Rightarrow> py_exn + json" where
  "py_get (JObj kvs) k dflt = Inr (case map_of kvs k of None \<Rightarrow> dflt | Some v \<Rightarrow> v)"
| "py_get _ k dflt = Inl AttributeError"

text \<open>
  \<^verbatim>\<open>x[0]\<close>: the first element of a list, the first character of a string,
  IndexError when either is empty; a dict decoded from JSON has no key \<^verbatim>\<open>0\<close>
  (KeyError); \<^verbatim>\<open>None\<close>, bools and numbers are not subscriptable (TypeError).
\<close>

fun py_index0 :: "json \<Rightarrow> py_exn + json" where
  "py_index0 (JArr []) = Inl IndexError"
| "py_index0 (JArr (x # xs)) = Inr x"
| "py_index0 (JStr []) = Inl IndexError"
| "py_index0 (JStr (c # cs)) = Inr (JStr [c])"
| "py_index0 (JObj kvs) = Inl KeyError"
| "py_index0 _ = Inl TypeError"

text \<open>\<^verbatim>\<open>needle in s\<close> on strings: \<open>needle\<close> occurs in \<open>s\<close> as a contiguous block.\<close>

fun str_contains :: "string \<Rightarrow> string \<Rightarrow> bool" where
  "str_contains needle [] = (needle = [])"
| "str_contains needle (c # cs) = (prefix needle (c # cs) \<or> str_contains needle cs)"

text \<open>
  \<^verbatim>\<open>k in x\<close> for a string \<open>k\<close>: key membership on a dict, element membership on a
  list, substring test on a string, TypeError on a value that is not iterable.
\<close>

fun py_in :: "string \<Rightarrow> json \<Rightarrow> py_exn + bool" where
  "py_in k (JObj kvs) = Inr (map_of kvs k \<noteq> None)"
| "py_in k (JArr xs) = Inr (List.member xs (JStr k))"
| "py_in k (JStr s) = Inr (str_contains k s)"
| "py_in k _ = Inl TypeError"

text \<open>
  \<^verbatim>\<open>x[k]\<close> for a string \<open>k\<close>: the entry of a dict (KeyError when absent); lists and
  strings take integer indices only, the other values are not subscriptable.
\<close>

fun py_item :: "json \<Rightarrow> string \<Rightarrow> py_exn + json" where
  "py_item (JObj kvs) k = (case map_of kvs k of None \<Rightarrow> Inl KeyError | Some v \<Rightarrow> Inr v)"
| "py_item _ k = Inl TypeError"

text \<open>
  \<^verbatim>\<open>str.isspace\<close> on one character, for the code points below 256: TAB, LF, VT, FF,
  CR, the separators FS, GS, RS, US, the space, NEL (0x85) and the no-break space (0xA0).
\<close>

definition isspace :: "char \<Rightarrow> bool" where
  "isspace c = (let n = (of_char c :: nat) in
     (9 \<le> n \<and> n \<le> 13) \<or> (28 \<le> n \<and> n \<le> 32) \<or> n = 133 \<or> n = 160)"

text \<open>\<^verbatim>\<open>s.strip()\<close> without argument: whitespace removed at both ends.\<close>

definition strip :: "string \<Rightarrow> string" where
  "strip s = rev (dropWhile isspace (rev (dropWhile isspace s)))"

text \<open>\<^verbatim>\<open>x.strip()\<close> on a decoded value: only a \<^verbatim>\<open>str\<close> has the method.\<close>

fun py_strip :: "json \<Rightarrow> py_exn + string" where
  "py_strip (JStr s) = Inr (strip s)"
| "py_strip _ = Inl AttributeError"


section \<open>The requests library, as far as call\_gemini uses it\<close>

text \<open>The arguments of the one \<^verbatim>\<open>requests.post\<close> call.\<close>

record post_request =
  url :: string
  params :: "(string \<times> string) list"
  json_payload :: json
  timeout :: nat

text \<open>
  A \<^verbatim>\<open>requests.Response\<close>: the status line, the URL, and what \<^verbatim>\<open>resp.json()\<close> does
  on the body: it returns the decoded document or raises. (The decoding error is a
  RequestException since requests 2.27 and a plain ValueError before; the field holds
  whichever is raised.)
\<close>

record http_response =
  status_code :: nat
  reason :: string
  resp_url :: string
  json_result :: "py_exn + json"

text \<open>\<^verbatim>\<open>str(n)\<close> for a natural number.\<close>

fun str_nat :: "nat \<Rightarrow> string" where
  "str_nat n =
     (if n < 10 then [char_of (48 + n)]
      else str_nat (n div 10) @ [char_of (48 + n mod 10)])"

declare str_nat.simps [simp del]

text \<open>
  \<^verbatim>\<open>Response.raise_for_status()\<close> of requests builds a message for the status codes
  400 to 599 and raises when there is one; every other status code passes:
  \<^verbatim>\<open>
    http_error_msg = ""
    if 400 <= self.status_code < 500:
        http_error_msg = f"{self.status_code} Client Error: {reason} for url: {self.url}"
    elif 500 <= self.status_code < 600:
        http_error_msg = f"{self.status_code} Server Error: {reason} for url: {self.url}"
    if http_error_msg:
        raise HTTPError(http_error_msg, response=self)
  \<close>
  \<open>raise_for_status\<close> is \<open>None\<close> when the method returns and the message of the
  HTTPError when it raises.
\<close>

definition http_error_msg :: "http_response \<Rightarrow> string" where
  "http_error_msg resp =
     (if 400 \<le> status_code resp \<and> status_code resp < 500 then
        str_nat (status_code resp) @ '' Client Error: '' @ reason resp
          @ '' for url: '' @ resp_url resp
      else if 500 \<le> status_code resp \<and> status_code resp < 600 then
        str_nat (status_code resp) @ '' Server Error: '' @ reason resp
          @ '' for url: '' @ resp_url resp
      else [])"

definition raise_for_status :: "http_response \<Rightarrow> string option" where
  "raise_for_status resp =
     (if http_error_msg resp \<noteq> [] then Some (http_error_msg resp) else None)"


section \<open>app.py: configuration and call\_gemini\<close>

text \<open>
  What the process reads from outside itself: the module-level \<^verbatim>\<open>GEMINI_API_KEY\<close>
  (\<^verbatim>\<open>os.environ.get\<close>: \<open>None\<close> when the variable is unset) and the upstream service,
  which answers a POST with a response or makes \<^verbatim>\<open>requests.post\<close> raise.
\<close>

record env =
  GEMINI_API_KEY :: "string option"
  upstream :: "post_request \<Rightarrow> py_exn + http_response"

definition GEMINI_MODEL_URL :: string where
  "GEMINI_MODEL_URL =
     ''https://generativestorybooks.googleapis.com/v1beta/models/''
     @ ''gemini-2.5-flash-preview-09-2025:generateContent''"

definition NO_KEY_MESSAGE :: string where
  "NO_KEY_MESSAGE =
     ''Error: GEMINI_API_KEY is not set. ''
     @ ''Set it in your environment to enable AI features.''"

definition NO_TEXT_MESSAGE :: string where
  "NO_TEXT_MESSAGE = ''Error: No valid text returned from Gemini.''"

text \<open>
  Lines 46 to 52 of app.py, on the decoded body \<open>data\<close>:
  \<^verbatim>\<open>
    candidate = (data.get("candidates") or [{}])[0]
    content = candidate.get("content", {})
    parts = content.get("parts", [])
    if parts and "text" in parts[0]:
        return parts[0]["text"]
    return "Error: No valid text returned from Gemini."
  \<close>
  The value returned is whatever is stored under \<^verbatim>\<open>"text"\<close>, of any JSON type.
\<close>

definition extract_text :: "json \<Rightarrow> py_exn + json" where
  "extract_text data =
     (case py_get data ''candidates'' JNull of
        Inl e \<Rightarrow> Inl e
      | Inr cands \<Rightarrow>
     (case py_index0 (py_or cands (JArr [JObj []])) of
        Inl e \<Rightarrow> Inl e
      | Inr candidate \<Rightarrow>
     (case py_get candidate ''content'' (JObj []) of
        Inl e \<Rightarrow> Inl e
      | Inr content \<Rightarrow>
     (case py_get content ''parts'' (JArr []) of
        Inl e \<Rightarrow> Inl e
      | Inr parts \<Rightarrow>
        if truthy parts then
          (case py_index0 parts of
             Inl e \<Rightarrow> Inl e
           | Inr part0 \<Rightarrow>
          (case py_in ''text'' part0 of
             Inl e \<Rightarrow> Inl e
           | Inr True \<Rightarrow> py_item part0 ''text''
           | Inr False \<Rightarrow> Inr (JStr NO_TEXT_MESSAGE)))
        else Inr (JStr NO_TEXT_MESSAGE)))))"

text \<open>
  The body of the \<^verbatim>\<open>try\<close> block (lines 37 to 52), given the request to send:
  the POST, \<^verbatim>\<open>raise_for_status\<close>, \<^verbatim>\<open>resp.json()\<close>, the extraction.
\<close>

definition try_block :: "env \<Rightarrow> post_request \<Rightarrow> py_exn + json" where
  "try_block e rq =
     (case upstream e rq of
        Inl ex \<Rightarrow> Inl ex
      | Inr resp \<Rightarrow>
     (case raise_for_status resp of
        Some msg \<Rightarrow> Inl (RequestException msg)
      | None \<Rightarrow>
     (case json_result resp of
        Inl ex \<Rightarrow> Inl ex
      | Inr data \<Rightarrow> extract_text data)))"

text \<open>
  \<^verbatim>\<open>except requests.exceptions.RequestException as e:
      return f"Error calling Gemini API: {e}"\<close>
  Any other exception leaves the function.
\<close>

fun except_request_exception :: "py_exn + json \<Rightarrow> py_exn + json" where
  "except_request_exception (Inl (RequestException d)) =
     Inr (JStr (''Error calling Gemini API: '' @ d))"
| "except_request_exception r = r"

text \<open>
  The POST of lines 28 to 42: the fixed URL, the key as the query parameter
  \<^verbatim>\<open>key\<close>, the payload as the JSON body, a timeout of 30 seconds.
  \<^verbatim>\<open>
    params = {"key": GEMINI_API_KEY}
    payload = {
        "contents": [{"parts": [{"text": user_query}]}],
        "systemInstruction": {"parts": [{"text": system_prompt}]},
    }
  \<close>
\<close>

definition gemini_request :: "string \<Rightarrow> string \<Rightarrow> string \<Rightarrow> post_request" where
  "gemini_request k user_query system_prompt =
     \<lparr> url = GEMINI_MODEL_URL,
       params = [(''key'', k)],
       json_payload =
         JObj [(''contents'',
                  JArr [JObj [(''parts'', JArr [JObj [(''text'', JStr user_query)]])]]),
               (''systemInstruction'',
                  JObj [(''parts'', JArr [JObj [(''text'', JStr system_prompt)]])])],
       timeout = 30 \<rparr>"

text \<open>
  \<^verbatim>\<open>call_gemini(user_query, system_prompt)\<close>. The last argument is the list of POSTs the
  process has sent so far; the function returns it extended by the POST it sends, if
  any. The result is \<open>Inl\<close> for an exception that leaves the function and \<open>Inr\<close>
  for the value returned. \<^verbatim>\<open>not GEMINI_API_KEY\<close> holds for \<^verbatim>\<open>None\<close> and for the empty
  string.
\<close>

definition call_gemini ::
  "env \<Rightarrow> string \<Rightarrow> string \<Rightarrow> post_request list \<Rightarrow> (py_exn + json) \<times> post_request list"
where
  "call_gemini e user_query system_prompt sent =
     (case GEMINI_API_KEY e of
        None \<Rightarrow> (Inr (JStr NO_KEY_MESSAGE), sent)
      | Some k \<Rightarrow>
          if k = [] then (Inr (JStr NO_KEY_MESSAGE), sent)
          else
            let rq = gemini_request k user_query system_prompt
            in (except_request_exception (try_block e rq), sent @ [rq]))"


section \<open>app.py: the two JSON routes\<close>

text \<open>
  The body of the incoming request. \<^verbatim>\<open>request.get_json(silent=True)\<close> returns the
  decoded document, and \<^verbatim>\<open>None\<close> when the body is not JSON (wrong content type or a
  parse error): \<^verbatim>\<open>silent\<close> turns the failure into \<^verbatim>\<open>None\<close>.
\<close>

datatype request_body = NotJson | WellFormed json

fun get_json_silent :: "request_body \<Rightarrow> json" where
  "get_json_silent NotJson = JNull"
| "get_json_silent (WellFormed j) = j"

text \<open>
  What a view returns: \<^verbatim>\<open>jsonify(d)\<close> is status 200 with the document \<open>d\<close>,
  \<^verbatim>\<open>jsonify(d), 400\<close> the same with status 400. \<open>ErrorPage\<close> is the HTML page of
  Flask's default handler.
\<close>

datatype reply_body = Jsonified json | ErrorPage

record reply =
  status :: nat
  body :: reply_body

text \<open>
  The last two lines of both views, \<^verbatim>\<open>x = call_gemini(...)\<close> and
  \<^verbatim>\<open>return jsonify({key: x})\<close>, applied to the outcome of the call: an exception of
  the adapter leaves the view, a value is answered with status 200.
\<close>

definition jsonify_result ::
  "string \<Rightarrow> (py_exn + json) \<times> post_request list \<Rightarrow> (py_exn + reply) \<times> post_request list"
where
  "jsonify_result key r =
     (case r of
        (Inl ex, sent') \<Rightarrow> (Inl ex, sent')
      | (Inr v, sent') \<Rightarrow>
          (Inr \<lparr> status = 200, body = Jsonified (JObj [(key, v)]) \<rparr>, sent'))"

definition BIO_SYSTEM_PROMPT :: string where
  "BIO_SYSTEM_PROMPT =
     ''You are a professional resume writer. Write an engaging, first-person ''
     @ [CHR 0x27] @ ''About Me'' @ [CHR 0x27]
     @ '' section for a personal portfolio. The tone should be passionate ''
     @ ''and professional. Base it on the following keywords. Keep it to 3-4 ''
     @ ''concise paragraphs.''"

definition PROJECT_SYSTEM_PROMPT :: string where
  "PROJECT_SYSTEM_PROMPT =
     ''You are a tech mentor. Suggest a new, impressive portfolio project idea. ''
     @ ''Respond with a title, a 1-2 sentence description, and 3-4 key technologies. ''
     @ ''Format your response in simple HTML ''
     @ ''(e.g., <h3>Title</h3><p>Description</p>''
     @ ''<p><strong>Tech:</strong> Tech 1, Tech 2</p>).''"

definition DEFAULT_ROLE :: string where
  "DEFAULT_ROLE = ''AI Software Engineer''"

text \<open>
  Lines 70 and 71 of \<^verbatim>\<open>api_bio\<close>:
  \<^verbatim>\<open>
    data = request.get_json(silent=True) or {}
    keywords = data.get("keywords", "").strip()
  \<close>
\<close>

definition bio_keywords :: "request_body \<Rightarrow> py_exn + string" where
  "bio_keywords rb =
     (case py_get (py_or (get_json_silent rb) (JObj [])) ''keywords'' (JStr []) of
        Inl ex \<Rightarrow> Inl ex
      | Inr v \<Rightarrow> py_strip v)"

text \<open>
  \<^verbatim>\<open>api_bio\<close>: 400 when the keywords are empty (\<^verbatim>\<open>if not keywords\<close>), otherwise
  the adapter is called with \<^verbatim>\<open>f"Keywords: {keywords}"\<close> and its answer goes under
  \<^verbatim>\<open>"text"\<close>.
\<close>

definition api_bio ::
  "env \<Rightarrow> request_body \<Rightarrow> post_request list \<Rightarrow> (py_exn + reply) \<times> post_request list"
where
  "api_bio e rb sent =
     (case bio_keywords rb of
        Inl ex \<Rightarrow> (Inl ex, sent)
      | Inr keywords \<Rightarrow>
          if keywords = [] then
            (Inr \<lparr> status = 400,
                    body = Jsonified (JObj [(''error'', JStr ''No keywords provided.'')]) \<rparr>,
             sent)
          else
            jsonify_result ''text''
              (call_gemini e (''Keywords: '' @ keywords) BIO_SYSTEM_PROMPT sent))"

text \<open>
  Lines 94, 95 and 105 of \<^verbatim>\<open>api_project\<close>: the user query handed to the adapter.
  \<^verbatim>\<open>
    data = request.get_json(silent=True) or {}
    role = data.get("role", "AI Software Engineer").strip() or "AI Software Engineer"
    user_query = f"Role: {role}"
  \<close>
\<close>

definition project_user_query :: "request_body \<Rightarrow> py_exn + string" where
  "project_user_query rb =
     (case py_get (py_or (get_json_silent rb) (JObj [])) ''role'' (JStr DEFAULT_ROLE) of
        Inl ex \<Rightarrow> Inl ex
      | Inr v \<Rightarrow>
     (case py_strip v of
        Inl ex \<Rightarrow> Inl ex
      | Inr s \<Rightarrow> Inr (''Role: '' @ (if s \<noteq> [] then s else DEFAULT_ROLE))))"

text \<open>
  \<^verbatim>\<open>api_project\<close>: the adapter is called with that query and its answer goes under
  \<^verbatim>\<open>"html"\<close>; the view has no other exit.
\<close>

definition api_project ::
  "env \<Rightarrow> request_body \<Rightarrow> post_request list \<Rightarrow> (py_exn + reply) \<times> post_request list"
where
  "api_project e rb sent =
     (case project_user_query rb of
        Inl ex \<Rightarrow> (Inl ex, sent)
      | Inr user_query \<Rightarrow>
          jsonify_result ''html'' (call_gemini e user_query PROJECT_SYSTEM_PROMPT sent))"

text \<open>
  Flask around a view: an exception that leaves the view is answered by the default
  handler with status 500.
\<close>

fun flask_dispatch :: "py_exn + reply \<Rightarrow> reply" where
  "flask_dispatch (Inl ex) = \<lparr> status = 500, body = ErrorPage \<rparr>"
| "flask_dispatch (Inr r) = r"


section \<open>The vocabulary of the specification\<close>

text \<open>
  The path the specification reads in the upstream document, as a chain of optional
  lookups: the field of an object, the first element of a list; "candidate list, first
  element, content, parts, first element, text".
\<close>

fun obj_field :: "json \<Rightarrow> string \<Rightarrow> json option" where
  "obj_field (JObj kvs) k = map_of kvs k"
| "obj_field _ k = None"

fun arr_first :: "json \<Rightarrow> json option" where
  "arr_first (JArr (x # xs)) = Some x"
| "arr_first _ = None"

definition spec_text_path :: "json \<Rightarrow> json option" where
  "spec_text_path data =
     Option.bind (obj_field data ''candidates'') (\<lambda>cands.
     Option.bind (arr_first cands) (\<lambda>candidate.
     Option.bind (obj_field candidate ''content'') (\<lambda>content.
     Option.bind (obj_field content ''parts'') (\<lambda>parts.
     Option.bind (arr_first parts) (\<lambda>part0.
     obj_field part0 ''text'')))))"

text \<open>
  The breakages of that path which the specification names, each on a document whose
  levels above the break have the JSON type the path expects: the candidates list is
  missing or empty, the first candidate has no content, the content has no parts or an
  empty list of parts, the first part has no text.
\<close>

inductive path_broken :: "json \<Rightarrow> bool" where
  no_candidates:
    "map_of d ''candidates'' = None \<Longrightarrow> path_broken (JObj d)"
| empty_candidates:
    "map_of d ''candidates'' = Some (JArr []) \<Longrightarrow> path_broken (JObj d)"
| no_content:
    "map_of d ''candidates'' = Some (JArr (JObj c # cs)) \<Longrightarrow>
     map_of c ''content'' = None \<Longrightarrow> path_broken (JObj d)"
| no_parts:
    "map_of d ''candidates'' = Some (JArr (JObj c # cs)) \<Longrightarrow>
     map_of c ''content'' = Some (JObj ct) \<Longrightarrow>
     map_of ct ''parts'' = None \<Longrightarrow> path_broken (JObj d)"
| empty_parts:
    "map_of d ''candidates'' = Some (JArr (JObj c # cs)) \<Longrightarrow>
     map_of c ''content'' = Some (JObj ct) \<Longrightarrow>
     map_of ct ''parts'' = Some (JArr []) \<Longrightarrow> path_broken (JObj d)"
| no_text:
    "map_of d ''candidates'' = Some (JArr (JObj c # cs)) \<Longrightarrow>
     map_of c ''content'' = Some (JObj ct) \<Longrightarrow>
     map_of ct ''parts'' = Some (JArr (JObj p # ps)) \<Longrightarrow>
     map_of p ''text'' = None \<Longrightarrow> path_broken (JObj d)"

code_pred path_broken .

text \<open>
  The outcomes of the POST under which the adapter is specified to answer with a string:
  a failure of the transport, an HTTP error status, a body that does not decode (where
  the library reports that as a RequestException), and a 2xx document whose path is
  broken in a named way or leads to a string.
\<close>

inductive tame_outcome :: "py_exn + http_response \<Rightarrow> bool" where
  transport_failure:
    "tame_outcome (Inl (RequestException d))"
| error_status:
    "400 \<le> status_code resp \<Longrightarrow> status_code resp < 600 \<Longrightarrow> tame_outcome (Inr resp)"
| undecodable:
    "200 \<le> status_code resp \<Longrightarrow> status_code resp < 300 \<Longrightarrow>
     json_result resp = Inl (RequestException d) \<Longrightarrow> tame_outcome (Inr resp)"
| broken:
    "200 \<le> status_code resp \<Longrightarrow> status_code resp < 300 \<Longrightarrow>
     json_result resp = Inr data \<Longrightarrow> path_broken data \<Longrightarrow> tame_outcome (Inr resp)"
| text_found:
    "200 \<le> status_code resp \<Longrightarrow> status_code resp < 300 \<Longrightarrow>
     json_result resp = Inr data \<Longrightarrow> spec_text_path data = Some (JStr t) \<Longrightarrow>
     tame_outcome (Inr resp)"


text \<open>
  A mocked upstream, as the specification's tests use it: it answers every POST with the
  given status and decoded document; and the process around it, with a key or without.
\<close>

definition mock_upstream :: "nat \<Rightarrow> string \<Rightarrow> json \<Rightarrow> post_request \<Rightarrow> py_exn + http_response" where
  "mock_upstream code phrase doc rq =
     Inr \<lparr> status_code = code, reason = phrase, resp_url = url rq, json_result = Inr doc \<rparr>"

definition mock_env :: "string option \<Rightarrow> nat \<Rightarrow> string \<Rightarrow> json \<Rightarrow> env" where
  "mock_env key code phrase doc =
     \<lparr> GEMINI_API_KEY = key, upstream = mock_upstream code phrase doc \<rparr>"

text \<open>A mocked upstream on which every POST fails with the given exception.\<close>

definition failing_env :: "string option \<Rightarrow> py_exn \<Rightarrow> env" where
  "failing_env key ex = \<lparr> GEMINI_API_KEY = key, upstream = (\<lambda>rq. Inl ex) \<rparr>"


section \<open>The configuration check of call\_gemini\<close>

text \<open>
  C5. Whatever the user query and the system prompt, when the API key is unset or the
  empty string, call\_gemini returns the sentence
  "Error: GEMINI\_API\_KEY is not set. Set it in your environment to enable AI features."
  and sends no POST: the list of POSTs sent is the one it was given.
\<close>

theorem call_gemini_no_key:
  assumes "GEMINI_API_KEY e = None \<or> GEMINI_API_KEY e = Some []"
  shows "call_gemini e user_query system_prompt sent =
           (Inr (JStr (''Error: GEMINI_API_KEY is not set. ''
                       @ ''Set it in your environment to enable AI features.'')), sent)"
  using assms by (auto simp: call_gemini_def NO_KEY_MESSAGE_def)

theorem call_gemini_no_key_witness:
  "(GEMINI_API_KEY (failing_env None ValueError) = None
      \<or> GEMINI_API_KEY (failing_env None ValueError) = Some [])
   \<and> call_gemini (failing_env None ValueError) ''Keywords: go'' ''prompt'' []
      = (Inr (JStr (''Error: GEMINI_API_KEY is not set. ''
                    @ ''Set it in your environment to enable AI features.'')), [])"
  using call_gemini_no_key
    [of "failing_env None ValueError" "''Keywords: go''" "''prompt''" "[]"]
  by (simp add: failing_env_def)


section \<open>Facts about the primitives and about the parts of call\_gemini\<close>

lemma strip_Nil_iff: "strip s = [] \<longleftrightarrow> list_all isspace s"
proof
  assume "strip s = []"
  then have "dropWhile isspace (rev (dropWhile isspace s)) = []"
    by (simp add: strip_def)
  then have all: "\<forall>x \<in> set (dropWhile isspace s). isspace x"
    by simp
  have "dropWhile isspace s = []"
  proof (rule ccontr)
    assume ne: "dropWhile isspace s \<noteq> []"
    then have "\<not> isspace (hd (dropWhile isspace s))"
      by (rule hd_dropWhile)
    moreover from ne have "hd (dropWhile isspace s) \<in> set (dropWhile isspace s)"
      by simp
    ultimately show False using all by blast
  qed
  then show "list_all isspace s"
    by (simp add: list_all_iff)
next
  assume "list_all isspace s"
  then have d: "dropWhile isspace s = []"
    by (simp add: list_all_iff)
  show "strip s = []"
    unfolding strip_def d by simp
qed

lemma http_error_msg_error_status:
  "400 \<le> status_code resp \<Longrightarrow> status_code resp < 600 \<Longrightarrow> http_error_msg resp \<noteq> []"
  by (simp add: http_error_msg_def)

lemma raise_for_status_error_status:
  "400 \<le> status_code resp \<Longrightarrow> status_code resp < 600 \<Longrightarrow>
   raise_for_status resp = Some (http_error_msg resp)"
  by (simp add: raise_for_status_def http_error_msg_error_status)

lemma raise_for_status_passes:
  "status_code resp < 400 \<Longrightarrow> raise_for_status resp = None"
  by (simp add: raise_for_status_def http_error_msg_def)

lemma call_gemini_with_key:
  "GEMINI_API_KEY e = Some k \<Longrightarrow> k \<noteq> [] \<Longrightarrow>
   call_gemini e uq sp sent =
     (except_request_exception (try_block e (gemini_request k uq sp)),
      sent @ [gemini_request k uq sp])"
  by (simp add: call_gemini_def Let_def)

lemma try_block_decoded:
  "upstream e rq = Inr resp \<Longrightarrow> status_code resp < 400 \<Longrightarrow> json_result resp = Inr data \<Longrightarrow>
   try_block e rq = extract_text data"
  by (simp add: try_block_def raise_for_status_passes)

lemma obj_field_SomeD:
  "obj_field j k = Some v \<Longrightarrow> \<exists>kvs. j = JObj kvs \<and> map_of kvs k = Some v"
  by (cases j) auto

lemma arr_first_SomeD: "arr_first j = Some v \<Longrightarrow> \<exists>xs. j = JArr (v # xs)"
  by (cases j rule: arr_first.cases) auto

lemma extract_text_path:
  assumes "spec_text_path data = Some t"
  shows "extract_text data = Inr t"
proof -
  from assms obtain cands candidate content parts part0 where
    1: "obj_field data ''candidates'' = Some cands" and
    2: "arr_first cands = Some candidate" and
    3: "obj_field candidate ''content'' = Some content" and
    4: "obj_field content ''parts'' = Some parts" and
    5: "arr_first parts = Some part0" and
    6: "obj_field part0 ''text'' = Some t"
    by (auto simp: spec_text_path_def Option.bind_eq_Some_conv)
  from 1 obtain d where d: "data = JObj d" "map_of d ''candidates'' = Some cands"
    by (blast dest: obj_field_SomeD)
  from 2 obtain cs where cs: "cands = JArr (candidate # cs)"
    by (blast dest: arr_first_SomeD)
  from 3 obtain c where c: "candidate = JObj c" "map_of c ''content'' = Some content"
    by (blast dest: obj_field_SomeD)
  from 4 obtain ct where ct: "content = JObj ct" "map_of ct ''parts'' = Some parts"
    by (blast dest: obj_field_SomeD)
  from 5 obtain ps where ps: "parts = JArr (part0 # ps)"
    by (blast dest: arr_first_SomeD)
  from 6 obtain p where p: "part0 = JObj p" "map_of p ''text'' = Some t"
    by (blast dest: obj_field_SomeD)
  show ?thesis
    by (simp add: extract_text_def d cs c ct ps p py_or_def)
qed

lemma extract_text_path_broken:
  "path_broken data \<Longrightarrow> extract_text data = Inr (JStr NO_TEXT_MESSAGE)"
  by (induction rule: path_broken.induct) (simp_all add: extract_text_def py_or_def)

section \<open>The text path\<close>

text \<open>
  C7. With a key configured, when the upstream answers the POST with a 2xx status and a
  JSON body that contains the path candidates[0].content.parts[0].text, call\_gemini
  returns exactly the value found there. The witness is the document of the
  specification's test, for which it returns "Hello".
\<close>

theorem call_gemini_returns_text:
  assumes "GEMINI_API_KEY e = Some k" and "k \<noteq> []"
    and "upstream e (gemini_request k user_query system_prompt) = Inr resp"
    and "200 \<le> status_code resp" and "status_code resp < 300"
    and "json_result resp = Inr data"
    and "spec_text_path data = Some t"
  shows "fst (call_gemini e user_query system_prompt sent) = Inr t"
proof -
  have "try_block e (gemini_request k user_query system_prompt) = extract_text data"
    using assms(3,5,6) by (simp add: try_block_decoded)
  then show ?thesis
    using assms(1,2,7) by (simp add: call_gemini_with_key extract_text_path)
qed

theorem call_gemini_returns_text_witness:
  "fst (call_gemini
         (mock_env (Some ''k'') 200 ''OK''
            (JObj [(''candidates'',
               JArr [JObj [(''content'',
                 JObj [(''parts'', JArr [JObj [(''text'', JStr ''Hello'')]])])]])]))
         ''Keywords: go'' ''prompt'' [])
   = Inr (JStr ''Hello'')"
  by (rule call_gemini_returns_text
        [where k = "''k''"
           and resp = "\<lparr> status_code = 200, reason = ''OK'',
                         resp_url = url (gemini_request ''k'' ''Keywords: go'' ''prompt''),
                         json_result = Inr (JObj [(''candidates'',
                           JArr [JObj [(''content'',
                             JObj [(''parts'', JArr [JObj [(''text'', JStr ''Hello'')]])])]])]) \<rparr>"
           and data = "JObj [(''candidates'',
                           JArr [JObj [(''content'',
                             JObj [(''parts'', JArr [JObj [(''text'', JStr ''Hello'')]])])]])]"])
     (simp_all add: mock_env_def mock_upstream_def spec_text_path_def)

section \<open>Broken text paths\<close>

text \<open>
  C1, as stated, fails: on a 2xx document whose first candidate has the content
  \<^verbatim>\<open>null\<close> the text path is absent, and \<^verbatim>\<open>content.get\<close> raises AttributeError
  instead of yielding the sentence.
\<close>

theorem call_gemini_null_content_raises:
  "spec_text_path (JObj [(''candidates'', JArr [JObj [(''content'', JNull)]])]) = None
   \<and> fst (call_gemini
         (mock_env (Some ''k'') 200 ''OK''
            (JObj [(''candidates'', JArr [JObj [(''content'', JNull)]])]))
         ''Keywords: go'' ''prompt'' [])
     = Inl AttributeError"
  by (simp add: spec_text_path_def call_gemini_def mock_env_def mock_upstream_def
        try_block_def raise_for_status_def http_error_msg_def extract_text_def py_or_def)

text \<open>
  C1, amended. With a key configured, when the upstream answers with a 2xx status and
  a JSON object whose path is broken in one of the named ways (candidates missing or
  empty, no content in the first candidate, parts missing or empty, no text in the
  first part, every level above the break being of the expected JSON type),
  call\_gemini returns exactly "Error: No valid text returned from Gemini.".
\<close>

theorem call_gemini_named_breakage:
  assumes "GEMINI_API_KEY e = Some k" and "k \<noteq> []"
    and "upstream e (gemini_request k user_query system_prompt) = Inr resp"
    and "200 \<le> status_code resp" and "status_code resp < 300"
    and "json_result resp = Inr data"
    and "path_broken data"
  shows "fst (call_gemini e user_query system_prompt sent)
           = Inr (JStr ''Error: No valid text returned from Gemini.'')"
proof -
  have "try_block e (gemini_request k user_query system_prompt) = extract_text data"
    using assms(3,5,6) by (simp add: try_block_decoded)
  then show ?thesis
    using assms(1,2,7)
    by (simp add: call_gemini_with_key extract_text_path_broken NO_TEXT_MESSAGE_def)
qed

theorem call_gemini_named_breakage_witness:
  "path_broken (JObj [(''candidates'', JArr [])])
   \<and> fst (call_gemini (mock_env (Some ''k'') 200 ''OK'' (JObj [(''candidates'', JArr [])]))
              ''Keywords: go'' ''prompt'' [])
       = Inr (JStr ''Error: No valid text returned from Gemini.'')"
proof -
  have broken: "path_broken (JObj [(''candidates'', JArr [])])"
    by (rule path_broken.empty_candidates) simp
  have "fst (call_gemini (mock_env (Some ''k'') 200 ''OK'' (JObj [(''candidates'', JArr [])]))
              ''Keywords: go'' ''prompt'' [])
       = Inr (JStr ''Error: No valid text returned from Gemini.'')"
    by (rule call_gemini_named_breakage
          [where k = "''k''"
             and resp = "\<lparr> status_code = 200, reason = ''OK'',
                           resp_url = url (gemini_request ''k'' ''Keywords: go'' ''prompt''),
                           json_result = Inr (JObj [(''candidates'', JArr [])]) \<rparr>"
             and data = "JObj [(''candidates'', JArr [])]"])
       (simp_all add: mock_env_def mock_upstream_def broken)
  with broken show ?thesis by simp
qed

section \<open>Transport failures and HTTP errors\<close>

text \<open>
  C6, as stated, fails on a status that is not 2xx and not an error for
  \<^verbatim>\<open>raise_for_status\<close>: a response 300 with the JSON body \<^verbatim>\<open>{}\<close> goes on to the
  extraction and yields the sentence of a missing text, which does not begin with
  "Error calling Gemini API: ".
\<close>

theorem call_gemini_status_300_not_caught:
  "\<not> (200 \<le> (300::nat) \<and> (300::nat) < 300)
   \<and> fst (call_gemini (mock_env (Some ''k'') 300 ''Multiple Choices'' (JObj []))
              ''Keywords: go'' ''prompt'' [])
       = Inr (JStr ''Error: No valid text returned from Gemini.'')
   \<and> \<not> prefix ''Error calling Gemini API: '' ''Error: No valid text returned from Gemini.''"
  by (simp add: call_gemini_def mock_env_def mock_upstream_def
        try_block_def raise_for_status_def http_error_msg_def extract_text_def py_or_def
        NO_TEXT_MESSAGE_def)

text \<open>
  C6, amended. With a key configured, when \<^verbatim>\<open>requests.post\<close> raises a
  RequestException (a network failure, a timeout) with description \<open>d\<close>, call\_gemini
  returns "Error calling Gemini API: " followed by \<open>d\<close>; when the upstream answers
  with a status from 400 to 599, it returns "Error calling Gemini API: " followed by
  the message of the HTTPError. In both cases nothing is raised to the caller.
\<close>

theorem call_gemini_catches_failures:
  assumes "GEMINI_API_KEY e = Some k" and "k \<noteq> []"
  shows "(upstream e (gemini_request k user_query system_prompt) = Inl (RequestException d)
            \<longrightarrow> fst (call_gemini e user_query system_prompt sent)
                  = Inr (JStr (''Error calling Gemini API: '' @ d)))
       \<and> (upstream e (gemini_request k user_query system_prompt) = Inr resp
            \<and> 400 \<le> status_code resp \<and> status_code resp < 600
            \<longrightarrow> fst (call_gemini e user_query system_prompt sent)
                  = Inr (JStr (''Error calling Gemini API: '' @ http_error_msg resp)))"
  using assms
  by (simp add: call_gemini_with_key try_block_def raise_for_status_error_status)


theorem call_gemini_catches_failures_witness:
  "fst (call_gemini (failing_env (Some ''k'') (RequestException ''timed out''))
          ''Keywords: go'' ''prompt'' [])
     = Inr (JStr (''Error calling Gemini API: '' @ ''timed out''))
   \<and> fst (call_gemini (mock_env (Some ''k'') 503 ''Service Unavailable'' (JObj []))
          ''Keywords: go'' ''prompt'' [])
     = Inr (JStr (''Error calling Gemini API: ''
          @ http_error_msg \<lparr> status_code = 503, reason = ''Service Unavailable'',
              resp_url = url (gemini_request ''k'' ''Keywords: go'' ''prompt''),
              json_result = Inr (JObj []) \<rparr>))"
  using
    call_gemini_catches_failures
      [where e = "failing_env (Some ''k'') (RequestException ''timed out'')" and k = "''k''"
         and user_query = "''Keywords: go''" and system_prompt = "''prompt''"
         and d = "''timed out''" and sent = "[]"]
    call_gemini_catches_failures
      [where e = "mock_env (Some ''k'') 503 ''Service Unavailable'' (JObj [])" and k = "''k''"
         and user_query = "''Keywords: go''" and system_prompt = "''prompt''"
         and resp = "\<lparr> status_code = 503, reason = ''Service Unavailable'',
              resp_url = url (gemini_request ''k'' ''Keywords: go'' ''prompt''),
              json_result = Inr (JObj []) \<rparr>" and sent = "[]"]
  by (simp add: failing_env_def mock_env_def mock_upstream_def)

section \<open>The return value of call\_gemini\<close>

text \<open>
  C8, as stated, fails: when the upstream answers 200 with the JSON document
  \<^verbatim>\<open>[]\<close>, \<^verbatim>\<open>data.get\<close> raises AttributeError and call\_gemini returns nothing.
\<close>

theorem call_gemini_top_level_list_raises:
  "fst (call_gemini (mock_env (Some ''k'') 200 ''OK'' (JArr []))
          ''Keywords: go'' ''prompt'' [])
     = Inl AttributeError"
  by (simp add: call_gemini_def mock_env_def mock_upstream_def
        try_block_def raise_for_status_def http_error_msg_def extract_text_def)

text \<open>
  C8, amended. When the key is unset or empty, or the outcome of the POST is one of:
  a RequestException, a status from 400 to 599, a 2xx body whose decoding raises a
  RequestException, a 2xx document whose path is broken in a named way, a 2xx document
  with a string at candidates[0].content.parts[0].text; then call\_gemini returns a
  plain string: the configuration sentence, a string beginning with
  "Error calling Gemini API: ", the sentence of a missing text, or the string found at
  the path.
\<close>

theorem call_gemini_returns_string:
  assumes "GEMINI_API_KEY e = None \<or> GEMINI_API_KEY e = Some []
           \<or> (\<exists>k. GEMINI_API_KEY e = Some k
                  \<and> tame_outcome (upstream e (gemini_request k user_query system_prompt)))"
  shows "\<exists>s. fst (call_gemini e user_query system_prompt sent) = Inr (JStr s)
           \<and> (s = NO_KEY_MESSAGE
              \<or> prefix ''Error calling Gemini API: '' s
              \<or> s = NO_TEXT_MESSAGE
              \<or> (\<exists>k resp data.
                    GEMINI_API_KEY e = Some k
                    \<and> upstream e (gemini_request k user_query system_prompt) = Inr resp
                    \<and> json_result resp = Inr data
                    \<and> spec_text_path data = Some (JStr s)))"
proof (cases "GEMINI_API_KEY e = None \<or> GEMINI_API_KEY e = Some []")
  case True
  then have "fst (call_gemini e user_query system_prompt sent) = Inr (JStr NO_KEY_MESSAGE)"
    by (auto simp: call_gemini_def)
  then show ?thesis by blast
next
  case False
  with assms obtain k where k: "GEMINI_API_KEY e = Some k" "k \<noteq> []"
    and tame: "tame_outcome (upstream e (gemini_request k user_query system_prompt))"
    by auto
  let ?rq = "gemini_request k user_query system_prompt"
  have res: "fst (call_gemini e user_query system_prompt sent)
               = except_request_exception (try_block e ?rq)"
    using k by (simp add: call_gemini_with_key)
  from tame show ?thesis
  proof (cases rule: tame_outcome.cases)
    case (transport_failure d)
    then have "try_block e ?rq = Inl (RequestException d)"
      by (simp add: try_block_def)
    with res have "fst (call_gemini e user_query system_prompt sent)
                     = Inr (JStr (''Error calling Gemini API: '' @ d))"
      by simp
    then show ?thesis by (metis prefixI)
  next
    case (error_status resp)
    then have "try_block e ?rq = Inl (RequestException (http_error_msg resp))"
      by (simp add: try_block_def raise_for_status_error_status)
    with res have "fst (call_gemini e user_query system_prompt sent)
                     = Inr (JStr (''Error calling Gemini API: '' @ http_error_msg resp))"
      by simp
    then show ?thesis by (metis prefixI)
  next
    case (undecodable resp d)
    then have "try_block e ?rq = Inl (RequestException d)"
      by (simp add: try_block_def raise_for_status_passes)
    with res have "fst (call_gemini e user_query system_prompt sent)
                     = Inr (JStr (''Error calling Gemini API: '' @ d))"
      by simp
    then show ?thesis by (metis prefixI)
  next
    case (broken resp data)
    then have "try_block e ?rq = Inr (JStr NO_TEXT_MESSAGE)"
      by (simp add: try_block_decoded extract_text_path_broken)
    with res have "fst (call_gemini e user_query system_prompt sent) = Inr (JStr NO_TEXT_MESSAGE)"
      by simp
    then show ?thesis by blast
  next
    case (text_found resp data t)
    then have "try_block e ?rq = Inr (JStr t)"
      by (simp add: try_block_decoded extract_text_path)
    with res have "fst (call_gemini e user_query system_prompt sent) = Inr (JStr t)"
      by simp
    with k text_found show ?thesis by blast
  qed
qed


theorem call_gemini_returns_string_witness:
  "tame_outcome (upstream (failing_env (Some ''k'') (RequestException ''timed out''))
                   (gemini_request ''k'' ''Keywords: go'' ''prompt''))
   \<and> (\<exists>s. fst (call_gemini (failing_env (Some ''k'') (RequestException ''timed out''))
                   ''Keywords: go'' ''prompt'' []) = Inr (JStr s)
           \<and> (s = NO_KEY_MESSAGE
              \<or> prefix ''Error calling Gemini API: '' s
              \<or> s = NO_TEXT_MESSAGE
              \<or> (\<exists>k resp data.
                    GEMINI_API_KEY (failing_env (Some ''k'') (RequestException ''timed out'')) = Some k
                    \<and> upstream (failing_env (Some ''k'') (RequestException ''timed out''))
                          (gemini_request k ''Keywords: go'' ''prompt'') = Inr resp
                    \<and> json_result resp = Inr data
                    \<and> spec_text_path data = Some (JStr s))))"
proof -
  let ?e = "failing_env (Some ''k'') (RequestException ''timed out'')"
  have tame: "tame_outcome (upstream ?e (gemini_request ''k'' ''Keywords: go'' ''prompt''))"
    by (simp add: failing_env_def tame_outcome.transport_failure)
  then have "GEMINI_API_KEY ?e = None \<or> GEMINI_API_KEY ?e = Some []
           \<or> (\<exists>k. GEMINI_API_KEY ?e = Some k
                  \<and> tame_outcome (upstream ?e (gemini_request k ''Keywords: go'' ''prompt'')))"
    by (simp add: failing_env_def)
  from call_gemini_returns_string [OF this, of "[]"] tame show ?thesis
    by blast
qed


section \<open>Facts about the two views\<close>

lemma strip_Nil [simp]: "strip [] = []"
  by (simp add: strip_def)

lemma py_or_JObj: "py_or (JObj kvs) (JObj []) = JObj kvs"
  by (cases kvs) (simp_all add: py_or_def)

lemma bio_keywords_object:
  "bio_keywords (WellFormed (JObj kvs)) =
     (case map_of kvs ''keywords'' of None \<Rightarrow> Inr [] | Some v \<Rightarrow> py_strip v)"
  by (simp add: bio_keywords_def py_or_JObj split: option.split)

lemma strip_DEFAULT_ROLE: "strip ''AI Software Engineer'' = ''AI Software Engineer''"
  by (simp add: strip_def isspace_def)

lemma project_user_query_object:
  "project_user_query (WellFormed (JObj kvs)) =
     (case map_of kvs ''role'' of
        None \<Rightarrow> Inr (''Role: '' @ DEFAULT_ROLE)
      | Some v \<Rightarrow>
          (case py_strip v of
             Inl ex \<Rightarrow> Inl ex
           | Inr s \<Rightarrow> Inr (''Role: '' @ (if s \<noteq> [] then s else DEFAULT_ROLE))))"
  by (simp add: project_user_query_def py_or_JObj strip_DEFAULT_ROLE DEFAULT_ROLE_def
      split: option.split)

lemma bio_keywords_NotJson: "bio_keywords NotJson = Inr []"
  by (simp add: bio_keywords_def py_or_def)

lemma project_user_query_NotJson: "project_user_query NotJson = Inr (''Role: '' @ DEFAULT_ROLE)"
  by (simp add: project_user_query_def py_or_def strip_DEFAULT_ROLE DEFAULT_ROLE_def)

lemma project_user_query_falsy:
  "\<not> truthy j \<Longrightarrow> project_user_query (WellFormed j) = Inr (''Role: '' @ DEFAULT_ROLE)"
  by (simp add: project_user_query_def py_or_def strip_DEFAULT_ROLE DEFAULT_ROLE_def)

lemma py_strip_not_str:
  "\<forall>s. v \<noteq> JStr s \<Longrightarrow> py_strip v = Inl AttributeError"
  by (cases v) simp_all

lemma api_project_returns:
  "project_user_query rb = Inr q \<Longrightarrow>
   call_gemini e q PROJECT_SYSTEM_PROMPT sent = (Inr v, sent') \<Longrightarrow>
   api_project e rb sent =
     (Inr \<lparr> status = 200, body = Jsonified (JObj [(''html'', v)]) \<rparr>, sent')"
  by (simp add: api_project_def jsonify_result_def)

lemma api_project_calls_adapter:
  "project_user_query rb = Inr q \<Longrightarrow>
   api_project e rb sent = jsonify_result ''html'' (call_gemini e q PROJECT_SYSTEM_PROMPT sent)"
  by (simp add: api_project_def)

lemma api_project_not_400:
  "status (flask_dispatch (fst (api_project e rb sent))) \<noteq> 400"
  by (simp add: api_project_def jsonify_result_def split: sum.split prod.split)

section \<open>The bio route without keywords\<close>

text \<open>
  C3, as stated, fails for \<^verbatim>\<open>null\<close>: with the body \<^verbatim>\<open>{"keywords": null}\<close> the key is
  present, \<^verbatim>\<open>data.get\<close> returns \<^verbatim>\<open>None\<close>, and \<^verbatim>\<open>None.strip()\<close> raises
  AttributeError: the answer is the 500 of the framework, not the 400.
\<close>

theorem api_bio_null_keywords_raises:
  "fst (api_bio (failing_env None ValueError)
          (WellFormed (JObj [(''keywords'', JNull)])) [])
     = Inl AttributeError
   \<and> status (flask_dispatch (fst (api_bio (failing_env None ValueError)
          (WellFormed (JObj [(''keywords'', JNull)])) []))) = 500"
  by (simp add: api_bio_def bio_keywords_def py_or_def)

text \<open>
  C3, amended. For every request to the bio route whose JSON object has no keywords, or
  keywords that are a string empty or whitespace only, the answer is HTTP 400 with the
  body \<^verbatim>\<open>{"error": "No keywords provided."}\<close>, and no POST is sent.
\<close>

theorem api_bio_no_keywords:
  assumes "map_of kvs ''keywords'' = None
           \<or> (\<exists>s. map_of kvs ''keywords'' = Some (JStr s) \<and> list_all isspace s)"
  shows "api_bio e (WellFormed (JObj kvs)) sent =
           (Inr \<lparr> status = 400,
                   body = Jsonified (JObj [(''error'', JStr ''No keywords provided.'')]) \<rparr>,
            sent)"
proof -
  from assms have "bio_keywords (WellFormed (JObj kvs)) = Inr []"
    by (auto simp: bio_keywords_object strip_Nil_iff)
  then show ?thesis by (simp add: api_bio_def)
qed

theorem api_bio_no_keywords_witness:
  "(map_of [(''keywords'', JStr ''  '')] ''keywords'' = None
     \<or> (\<exists>s. map_of [(''keywords'', JStr ''  '')] ''keywords'' = Some (JStr s)
           \<and> list_all isspace s))
   \<and> api_bio (failing_env (Some ''k'') ValueError)
        (WellFormed (JObj [(''keywords'', JStr ''  '')])) [] =
       (Inr \<lparr> status = 400,
               body = Jsonified (JObj [(''error'', JStr ''No keywords provided.'')]) \<rparr>,
        [])"
proof -
  have hyp: "map_of [(''keywords'', JStr ''  '')] ''keywords'' = None
     \<or> (\<exists>s. map_of [(''keywords'', JStr ''  '')] ''keywords'' = Some (JStr s)
           \<and> list_all isspace s)"
    by (simp add: isspace_def)
  from hyp api_bio_no_keywords [OF hyp, of "failing_env (Some ''k'') ValueError" "[]"]
  show ?thesis by blast
qed

section \<open>Request bodies that are not JSON\<close>

text \<open>
  C4, as stated, fails: the views read the body with \<^verbatim>\<open>get_json(silent=True)\<close>, so a
  body that is not well-formed JSON raises nothing; on the bio route the answer is 400.
\<close>

theorem api_bio_malformed_body_is_400:
  "status (flask_dispatch (fst (api_bio (failing_env None ValueError) NotJson []))) = 400"
  by (simp add: api_bio_def bio_keywords_NotJson)

text \<open>
  C4, amended. A request whose body is not well-formed JSON is handled like one with
  the empty object: the bio route answers 400 with "No keywords provided."; the project
  route builds the query "Role: AI Software Engineer" and answers 200 with whatever the
  adapter returns for it.
\<close>

theorem malformed_body_as_empty_object:
  "api_bio e NotJson sent =
     (Inr \<lparr> status = 400,
             body = Jsonified (JObj [(''error'', JStr ''No keywords provided.'')]) \<rparr>,
      sent)
   \<and> project_user_query NotJson = Inr ''Role: AI Software Engineer''
   \<and> (\<forall>v sent'.
        call_gemini e ''Role: AI Software Engineer'' PROJECT_SYSTEM_PROMPT sent = (Inr v, sent')
        \<longrightarrow> api_project e NotJson sent =
              (Inr \<lparr> status = 200, body = Jsonified (JObj [(''html'', v)]) \<rparr>, sent'))"
proof -
  have q: "project_user_query NotJson = Inr ''Role: AI Software Engineer''"
    by (simp add: project_user_query_NotJson DEFAULT_ROLE_def)
  have "api_bio e NotJson sent =
     (Inr \<lparr> status = 400,
             body = Jsonified (JObj [(''error'', JStr ''No keywords provided.'')]) \<rparr>,
      sent)"
    by (simp add: api_bio_def bio_keywords_NotJson)
  with q show ?thesis
    by (simp add: api_project_returns)
qed

theorem malformed_body_as_empty_object_witness:
  "call_gemini (failing_env None ValueError) ''Role: AI Software Engineer''
       PROJECT_SYSTEM_PROMPT [] = (Inr (JStr NO_KEY_MESSAGE), [])
   \<and> api_project (failing_env None ValueError) NotJson [] =
       (Inr \<lparr> status = 200, body = Jsonified (JObj [(''html'', JStr NO_KEY_MESSAGE)]) \<rparr>, [])
   \<and> api_bio (failing_env None ValueError) NotJson [] =
       (Inr \<lparr> status = 400,
               body = Jsonified (JObj [(''error'', JStr ''No keywords provided.'')]) \<rparr>,
        [])"
proof -
  have adapter: "call_gemini (failing_env None ValueError) ''Role: AI Software Engineer''
       PROJECT_SYSTEM_PROMPT [] = (Inr (JStr NO_KEY_MESSAGE), [])"
    by (simp add: call_gemini_def failing_env_def)
  from adapter malformed_body_as_empty_object [of "failing_env None ValueError" "[]"]
  show ?thesis by blast
qed

section \<open>The project route\<close>

text \<open>
  C2, as stated, fails for \<^verbatim>\<open>null\<close>: with the body \<^verbatim>\<open>{"role": null}\<close>,
  \<^verbatim>\<open>None.strip()\<close> raises AttributeError and the answer is the 500 of the framework.
\<close>

theorem api_project_null_role_raises:
  "fst (api_project (failing_env None ValueError)
          (WellFormed (JObj [(''role'', JNull)])) [])
     = Inl AttributeError
   \<and> status (flask_dispatch (fst (api_project (failing_env None ValueError)
          (WellFormed (JObj [(''role'', JNull)])) []))) = 500"
  by (simp add: api_project_def project_user_query_def py_or_def)

text \<open>
  C2, amended. For every request to the project route whose JSON object has no role or
  a string role (empty and whitespace only included), the view builds a user query,
  answers HTTP 200 with the adapter's return value under "html" whenever the adapter
  returns one, and never answers with the status 400 of a validation failure.
\<close>

theorem api_project_status_200:
  assumes "map_of kvs ''role'' = None \<or> (\<exists>s. map_of kvs ''role'' = Some (JStr s))"
  shows "\<exists>q. project_user_query (WellFormed (JObj kvs)) = Inr q
           \<and> (\<forall>v sent'.
                call_gemini e q PROJECT_SYSTEM_PROMPT sent = (Inr v, sent')
                \<longrightarrow> api_project e (WellFormed (JObj kvs)) sent =
                      (Inr \<lparr> status = 200, body = Jsonified (JObj [(''html'', v)]) \<rparr>, sent'))
           \<and> status (flask_dispatch (fst (api_project e (WellFormed (JObj kvs)) sent))) \<noteq> 400"
proof -
  from assms obtain q where "project_user_query (WellFormed (JObj kvs)) = Inr q"
    by (auto simp: project_user_query_object)
  then show ?thesis
    by (auto simp: api_project_returns api_project_not_400)
qed

theorem api_project_status_200_witness:
  "(map_of [(''role'', JStr ''  '')] ''role'' = None
      \<or> (\<exists>s. map_of [(''role'', JStr ''  '')] ''role'' = Some (JStr s)))
   \<and> api_project (failing_env None ValueError) (WellFormed (JObj [(''role'', JStr ''  '')])) [] =
       (Inr \<lparr> status = 200, body = Jsonified (JObj [(''html'', JStr NO_KEY_MESSAGE)]) \<rparr>, [])"
proof -
  let ?e = "failing_env None ValueError"
  let ?rb = "WellFormed (JObj [(''role'', JStr ''  '')])"
  have hyp: "map_of [(''role'', JStr ''  '')] ''role'' = None
      \<or> (\<exists>s. map_of [(''role'', JStr ''  '')] ''role'' = Some (JStr s))"
    by simp
  from api_project_status_200 [OF hyp, of ?e "[]"]
  obtain q where q: "project_user_query ?rb = Inr q"
    and reply: "\<And>v sent'. call_gemini ?e q PROJECT_SYSTEM_PROMPT [] = (Inr v, sent')
                 \<Longrightarrow> api_project ?e ?rb [] =
                      (Inr \<lparr> status = 200, body = Jsonified (JObj [(''html'', v)]) \<rparr>, sent')"
    by blast
  have "call_gemini ?e q PROJECT_SYSTEM_PROMPT [] = (Inr (JStr NO_KEY_MESSAGE), [])"
    by (simp add: call_gemini_def failing_env_def)
  from reply [OF this] hyp show ?thesis by blast
qed

text \<open>
  C9, as stated, fails: with the body \<^verbatim>\<open>{"role": null}\<close>, a role the specification
  counts as absent, \<^verbatim>\<open>None.strip()\<close> raises AttributeError before the query is built,
  so no user query reaches the adapter and nothing is posted, even with a key
  configured.
\<close>

theorem project_user_query_null_role_raises:
  "project_user_query (WellFormed (JObj [(''role'', JNull)])) = Inl AttributeError
   \<and> api_project (mock_env (Some ''k'') 200 ''OK'' (JObj []))
         (WellFormed (JObj [(''role'', JNull)])) []
       = (Inl AttributeError, [])"
  by (simp add: api_project_def project_user_query_def py_or_def)

text \<open>
  C9, amended. For every request to the project route whose body is not JSON, is a JSON
  value that Python counts as false, or is a JSON object with no role or with a role
  that is a string empty or whitespace only, the user query is exactly
  "Role: AI Software Engineer"; for a JSON object whose role is any other string it is
  "Role: " followed by the trimmed role. That query is the one the view hands to the
  adapter, whose outcome it wraps.
\<close>

theorem api_project_user_query:
  "project_user_query NotJson = Inr ''Role: AI Software Engineer''
   \<and> (\<not> truthy j
      \<longrightarrow> project_user_query (WellFormed j) = Inr ''Role: AI Software Engineer'')
   \<and> (map_of kvs ''role'' = None
      \<longrightarrow> project_user_query (WellFormed (JObj kvs)) = Inr ''Role: AI Software Engineer'')
   \<and> (map_of kvs ''role'' = Some (JStr s) \<and> list_all isspace s
      \<longrightarrow> project_user_query (WellFormed (JObj kvs)) = Inr ''Role: AI Software Engineer'')
   \<and> (map_of kvs ''role'' = Some (JStr s) \<and> \<not> list_all isspace s
      \<longrightarrow> project_user_query (WellFormed (JObj kvs)) = Inr (''Role: '' @ strip s))
   \<and> (project_user_query rb = Inr q
      \<longrightarrow> api_project e rb sent
            = jsonify_result ''html'' (call_gemini e q PROJECT_SYSTEM_PROMPT sent))"
proof -
  have "project_user_query NotJson = Inr ''Role: AI Software Engineer''"
    by (simp add: project_user_query_NotJson DEFAULT_ROLE_def)
  moreover have "\<not> truthy j
      \<longrightarrow> project_user_query (WellFormed j) = Inr ''Role: AI Software Engineer''"
    by (simp add: project_user_query_falsy DEFAULT_ROLE_def)
  ultimately show ?thesis
    by (simp add: project_user_query_object strip_Nil_iff DEFAULT_ROLE_def
        api_project_calls_adapter)
qed

theorem api_project_user_query_witness:
  "project_user_query (WellFormed (JArr [])) = Inr ''Role: AI Software Engineer''
   \<and> project_user_query (WellFormed (JObj [(''other'', JNum 1)])) = Inr ''Role: AI Software Engineer''
   \<and> project_user_query (WellFormed (JObj [(''role'', JStr ''  '')])) = Inr ''Role: AI Software Engineer''
   \<and> project_user_query (WellFormed (JObj [(''role'', JStr '' Data Engineer  '')]))
       = Inr (''Role: '' @ strip '' Data Engineer  '')
   \<and> strip '' Data Engineer  '' = ''Data Engineer''
   \<and> api_project (failing_env None ValueError)
         (WellFormed (JObj [(''role'', JStr '' Data Engineer  '')])) []
       = jsonify_result ''html''
           (call_gemini (failing_env None ValueError) (''Role: '' @ strip '' Data Engineer  '')
              PROJECT_SYSTEM_PROMPT [])"
proof -
  let ?rb = "WellFormed (JObj [(''role'', JStr '' Data Engineer  '')])"
  have blank: "list_all isspace ''  ''" and name: "\<not> list_all isspace '' Data Engineer  ''"
    by (simp_all add: isspace_def)
  have 0: "project_user_query (WellFormed (JArr [])) = Inr ''Role: AI Software Engineer''"
    using api_project_user_query [where j = "JArr []"] by simp
  have 1: "project_user_query (WellFormed (JObj [(''other'', JNum 1)]))
             = Inr ''Role: AI Software Engineer''"
    using api_project_user_query [where kvs = "[(''other'', JNum 1)]"] by simp
  have 2: "project_user_query (WellFormed (JObj [(''role'', JStr ''  '')]))
             = Inr ''Role: AI Software Engineer''"
    using api_project_user_query [where kvs = "[(''role'', JStr ''  '')]" and s = "''  ''"] blank
    by simp
  have 3: "project_user_query ?rb = Inr (''Role: '' @ strip '' Data Engineer  '')"
    using api_project_user_query
      [where kvs = "[(''role'', JStr '' Data Engineer  '')]" and s = "'' Data Engineer  ''"]
      name by simp
  have 4: "api_project (failing_env None ValueError) ?rb []
       = jsonify_result ''html''
           (call_gemini (failing_env None ValueError) (''Role: '' @ strip '' Data Engineer  '')
              PROJECT_SYSTEM_PROMPT [])"
    using api_project_user_query
      [where rb = ?rb and q = "''Role: '' @ strip '' Data Engineer  ''"
         and e = "failing_env None ValueError" and sent = "[]"] 3
    by blast
  have 5: "strip '' Data Engineer  '' = ''Data Engineer''"
    by (simp add: strip_def isspace_def)
  from 0 1 2 3 4 5 show ?thesis by blast
qed

section \<open>Fields that are not strings\<close>

text \<open>
  C10. When the JSON object of the request holds, under keywords (bio route) or role
  (project route), a value that is neither a string nor \<^verbatim>\<open>null\<close> (a number, a bool,
  a list, an object), \<^verbatim>\<open>.strip()\<close> raises AttributeError in the view, no POST is
  sent, and the framework answers 500 instead of the 400 or 200 of the route.
\<close>

theorem non_string_field_raises:
  assumes "v \<noteq> JNull" and "\<forall>s. v \<noteq> JStr s"
  shows "(map_of kvs ''keywords'' = Some v
            \<longrightarrow> api_bio e (WellFormed (JObj kvs)) sent = (Inl AttributeError, sent)
              \<and> status (flask_dispatch (fst (api_bio e (WellFormed (JObj kvs)) sent))) = 500)
       \<and> (map_of kvs ''role'' = Some v
            \<longrightarrow> api_project e (WellFormed (JObj kvs)) sent = (Inl AttributeError, sent)
              \<and> status (flask_dispatch (fst (api_project e (WellFormed (JObj kvs)) sent))) = 500)"
  using assms(2)
  by (simp add: api_bio_def api_project_def bio_keywords_object project_user_query_object
      py_strip_not_str)

theorem non_string_field_raises_witness:
  "api_bio (failing_env None ValueError) (WellFormed (JObj [(''keywords'', JNum 5)])) []
     = (Inl AttributeError, [])
   \<and> status (flask_dispatch (fst (api_bio (failing_env None ValueError)
        (WellFormed (JObj [(''keywords'', JNum 5)])) []))) = 500
   \<and> api_project (failing_env None ValueError)
        (WellFormed (JObj [(''role'', JArr [JStr ''dev''])])) []
     = (Inl AttributeError, [])
   \<and> status (flask_dispatch (fst (api_project (failing_env None ValueError)
        (WellFormed (JObj [(''role'', JArr [JStr ''dev''])])) []))) = 500"
  using non_string_field_raises
      [of "JNum 5" "[(''keywords'', JNum 5)]" "failing_env None ValueError" "[]"]
    non_string_field_raises
      [of "JArr [JStr ''dev'']" "[(''role'', JArr [JStr ''dev''])]" "failing_env None ValueError" "[]"]
  by simp

end
